theory Spec2Isabelle
  imports Complex_Main "HOL-Library.Multiset"
begin

section \<open>The ledger of accounts/views.py\<close>

text \<open>
  The views of \<^verbatim>\<open>accounts/views.py\<close> work on three tables: Django's users, the bank
  accounts (one per user at most, reached as \<^verbatim>\<open>user.bank_account\<close>) and the transaction
  records. A user is identified by the username, which Django keeps unique; a bank
  account is identified by its owner, since the relation is one-to-one. Amounts are
  Python \<^verbatim>\<open>Decimal\<close> values: exact decimal fractions, embedded in the rationals with
  exact \<open>+\<close>, \<open>-\<close> and \<open><\<close>.
\<close>

type_synonym username = string
type_synonym decimal = rat

text \<open>
  Modelled from the spec: \<^verbatim>\<open>accounts/models.py\<close> is not among the sources. A transaction
  record holds the owning account reference, the kind, the amount, a free-text
  description and the creation timestamp; the timestamp is not passed by the views,
  the store sets it when the row is inserted.
\<close>

record transaction =
  account :: username
  transaction_type :: string
  amount :: decimal
  description :: string
  created_at :: nat

text \<open>
  The store: the usernames of the registered users, the balance of each bank account
  keyed by its owner, the transaction table in insertion order, and the clock that
  stamps new rows.
\<close>

record db =
  users :: "username list"
  bank_accounts :: "username \<rightharpoonup> decimal"
  transactions :: "transaction list"
  clock :: nat

text \<open>
  What a view hands back: a \<^verbatim>\<open>Response\<close> with a body and an HTTP status, or an
  exception that leaves the view. The field \<^verbatim>\<open>new_balance\<close> is \<^verbatim>\<open>str(account.balance)\<close> in
  the source; the model keeps the decimal itself.
\<close>

datatype exn = ValidationError | RelatedObjectDoesNotExist

datatype body = Message string decimal | Error string

datatype response = Response body nat

definition HTTP_200_OK :: nat where
  "HTTP_200_OK = 200"

definition HTTP_400_BAD_REQUEST :: nat where
  "HTTP_400_BAD_REQUEST = 400"

definition HTTP_404_NOT_FOUND :: nat where
  "HTTP_404_NOT_FOUND = 404"

type_synonym 'a outcome = "(exn + 'a) \<times> db"

subsection \<open>Store operations\<close>

text \<open>\<^verbatim>\<open>user.bank_account\<close>: the reverse one-to-one accessor raises when the user has no
  account row.\<close>

definition bank_account :: "db \<Rightarrow> username \<Rightarrow> exn + decimal" where
  "bank_account s u =
     (case bank_accounts s u of
        None \<Rightarrow> Inl RelatedObjectDoesNotExist
      | Some b \<Rightarrow> Inr b)"

text \<open>\<^verbatim>\<open>account.save()\<close>: the row of the account is overwritten with the balance held by
  the Python object.\<close>

definition save :: "db \<Rightarrow> username \<Rightarrow> decimal \<Rightarrow> db" where
  "save s u b = s\<lparr>bank_accounts := (bank_accounts s)(u \<mapsto> b)\<rparr>"

text \<open>\<^verbatim>\<open>Transaction.objects.create(...)\<close>: one row is appended, stamped with the clock,
  and the clock moves on.\<close>

definition Transaction_objects_create ::
  "db \<Rightarrow> username \<Rightarrow> string \<Rightarrow> decimal \<Rightarrow> string \<Rightarrow> db" where
  "Transaction_objects_create s acc ty a d =
     s\<lparr>transactions := transactions s @
          [\<lparr>account = acc, transaction_type = ty, amount = a, description = d,
            created_at = clock s\<rparr>],
       clock := Suc (clock s)\<rparr>"

text \<open>\<^verbatim>\<open>User.objects.get(username=...)\<close>: \<open>None\<close> stands for \<^verbatim>\<open>User.DoesNotExist\<close>, which
  the only caller catches.\<close>

definition User_objects_get :: "db \<Rightarrow> username \<Rightarrow> username option" where
  "User_objects_get s n = (if n \<in> set (users s) then Some n else None)"

subsection \<open>Request validation\<close>

text \<open>
  Modelled from the spec: \<^verbatim>\<open>accounts/serializers.py\<close> is not among the sources. The spec
  requires amount > 0 for every operation and has a zero or negative amount rejected
  with \<^verbatim>\<open>ValidationError\<close>; \<^verbatim>\<open>is_valid(raise_exception=True)\<close> followed by the read of
  \<^verbatim>\<open>validated_data["amount"]\<close> is modelled as one function.
\<close>

definition DepositSerializer :: "decimal \<Rightarrow> exn + decimal" where
  "DepositSerializer a = (if 0 < a then Inr a else Inl ValidationError)"

definition WithdrawSerializer :: "decimal \<Rightarrow> exn + decimal" where
  "WithdrawSerializer a = (if 0 < a then Inr a else Inl ValidationError)"

definition TransferSerializer :: "decimal \<Rightarrow> string \<Rightarrow> exn + decimal \<times> string" where
  "TransferSerializer a r = (if 0 < a then Inr (a, r) else Inl ValidationError)"

subsection \<open>The views\<close>

text \<open>\<^verbatim>\<open>DepositView.post\<close>, with \<^verbatim>\<open>request.user\<close> as \<open>u\<close> and the amount of
  \<^verbatim>\<open>request.data\<close> as \<open>raw\<close>.\<close>

definition DepositView_post :: "db \<Rightarrow> username \<Rightarrow> decimal \<Rightarrow> response outcome" where
  "DepositView_post s u raw =
     (case DepositSerializer raw of
        Inl e \<Rightarrow> (Inl e, s)
      | Inr a \<Rightarrow>
         (case bank_account s u of
            Inl e \<Rightarrow> (Inl e, s)
          | Inr b \<Rightarrow>
             (let b' = b + a;
                  s1 = save s u b';
                  s2 = Transaction_objects_create s1 u ''DEPOSIT'' a ''Deposit to account''
              in (Inr (Response (Message ''Deposit successful'' b') HTTP_200_OK), s2))))"

text \<open>\<^verbatim>\<open>WithdrawView.post\<close>. The error text is spelled as in the source.\<close>

definition WithdrawView_post :: "db \<Rightarrow> username \<Rightarrow> decimal \<Rightarrow> response outcome" where
  "WithdrawView_post s u raw =
     (case WithdrawSerializer raw of
        Inl e \<Rightarrow> (Inl e, s)
      | Inr a \<Rightarrow>
         (case bank_account s u of
            Inl e \<Rightarrow> (Inl e, s)
          | Inr b \<Rightarrow>
             if b < a
             then (Inr (Response (Error ''Insuficient funds'') HTTP_400_BAD_REQUEST), s)
             else
               (let b' = b - a;
                    s1 = save s u b';
                    s2 = Transaction_objects_create s1 u ''WITHDRAWAL'' a
                           ''Withdrawal from account''
                in (Inr (Response (Message ''Withdrawal successful'' b') HTTP_200_OK), s2))))"

text \<open>
  \<^verbatim>\<open>TransferView.post\<close>. The sender's account is read first (line 121), then come the
  self-transfer test, the lookup of the recipient, the funds test and only then the
  read of the recipient's account (line 141), outside any \<^verbatim>\<open>try\<close>. The block under
  \<^verbatim>\<open>transaction.atomic()\<close> is the four writes, taken as one step of the store.
\<close>

definition TransferView_post ::
  "db \<Rightarrow> username \<Rightarrow> decimal \<Rightarrow> string \<Rightarrow> response outcome" where
  "TransferView_post s u raw raw_recipient =
     (case TransferSerializer raw raw_recipient of
        Inl e \<Rightarrow> (Inl e, s)
      | Inr (a, recipient_username) \<Rightarrow>
         (case bank_account s u of
            Inl e \<Rightarrow> (Inl e, s)
          | Inr sb \<Rightarrow>
             if u = recipient_username
             then (Inr (Response (Error ''Cannot transfer to yourself'')
                          HTTP_400_BAD_REQUEST), s)
             else
               (case User_objects_get s recipient_username of
                  None \<Rightarrow> (Inr (Response (Error ''Recipient not found'')
                                 HTTP_404_NOT_FOUND), s)
                | Some recipient \<Rightarrow>
                   if sb < a
                   then (Inr (Response (Error ''Insufficient funds'')
                                HTTP_400_BAD_REQUEST), s)
                   else
                     (case bank_account s recipient of
                        Inl e \<Rightarrow> (Inl e, s)
                      | Inr rb \<Rightarrow>
                         (let sb' = sb - a;
                              s1 = save s u sb';
                              rb' = rb + a;
                              s2 = save s1 recipient rb';
                              s3 = Transaction_objects_create s2 u ''TRANSFER_OUT'' a
                                     (''Transfer to '' @ recipient_username);
                              s4 = Transaction_objects_create s3 recipient ''TRANSFER_IN'' a
                                     (''Transfer from '' @ u)
                          in (Inr (Response (Message ''Transfer successful'' sb')
                                     HTTP_200_OK), s4))))))"

text \<open>
  \<^verbatim>\<open>TransactionHistoryView.get_queryset\<close>: the rows whose account is the caller's, by
  descending \<^verbatim>\<open>created_at\<close>. The store is handed back as it was received: the view
  writes nothing.
\<close>

definition get_queryset :: "db \<Rightarrow> username \<Rightarrow> transaction list outcome" where
  "get_queryset s u =
     (case bank_account s u of
        Inl e \<Rightarrow> (Inl e, s)
      | Inr b \<Rightarrow>
         (Inr (rev (sort_key created_at (filter (\<lambda>t. account t = u) (transactions s)))), s))"

subsection \<open>Sequences of requests\<close>

text \<open>
  A request to one of the three mutating views, with the caller, the amount and (for
  a transfer) the recipient's username. \<open>handle\<close> is the store the view leaves behind;
  \<open>states_after\<close> lists the store after each request of a sequence, served one after
  the other.
\<close>

datatype request =
    Deposit username decimal
  | Withdraw username decimal
  | Transfer username decimal string

fun request_amount :: "request \<Rightarrow> decimal" where
  "request_amount (Deposit u a) = a"
| "request_amount (Withdraw u a) = a"
| "request_amount (Transfer u a r) = a"

fun handle :: "db \<Rightarrow> request \<Rightarrow> db" where
  "handle s (Deposit u a) = snd (DepositView_post s u a)"
| "handle s (Withdraw u a) = snd (WithdrawView_post s u a)"
| "handle s (Transfer u a r) = snd (TransferView_post s u a r)"

fun states_after :: "db \<Rightarrow> request list \<Rightarrow> db list" where
  "states_after s [] = []"
| "states_after s (q # qs) = handle s q # states_after (handle s q) qs"

definition balances_nonneg :: "db \<Rightarrow> bool" where
  "balances_nonneg s = (\<forall>u b. bank_accounts s u = Some b \<longrightarrow> 0 \<le> b)"

subsection \<open>The views statement by statement\<close>

text \<open>
  \<^verbatim>\<open>DepositView.post\<close> and \<^verbatim>\<open>WithdrawView.post\<close> reach the store three times: the read
  of \<^verbatim>\<open>request.user.bank_account\<close>, \<^verbatim>\<open>account.save()\<close> and
  \<^verbatim>\<open>Transaction.objects.create\<close>. Neither view opens \<^verbatim>\<open>transaction.atomic()\<close> nor locks
  the row, so each of the three is a store statement of its own and another request
  can run between two of them. A stage records how far a call has come and what its
  Python objects hold: the validated amount and the balance of the \<^verbatim>\<open>account\<close> object,
  which is the caller's copy of the row.
\<close>

datatype stage =
    Received
  | Loaded decimal decimal
  | Saved decimal decimal
  | Returned "exn + response"

fun DepositView_step :: "username \<Rightarrow> decimal \<Rightarrow> stage \<times> db \<Rightarrow> stage \<times> db" where
  "DepositView_step u raw (Received, s) =
     (case DepositSerializer raw of
        Inl e \<Rightarrow> (Returned (Inl e), s)
      | Inr a \<Rightarrow>
         (case bank_account s u of
            Inl e \<Rightarrow> (Returned (Inl e), s)
          | Inr b \<Rightarrow> (Loaded a b, s)))"
| "DepositView_step u raw (Loaded a b, s) = (Saved a (b + a), save s u (b + a))"
| "DepositView_step u raw (Saved a b', s) =
     (Returned (Inr (Response (Message ''Deposit successful'' b') HTTP_200_OK)),
      Transaction_objects_create s u ''DEPOSIT'' a ''Deposit to account'')"
| "DepositView_step u raw (Returned r, s) = (Returned r, s)"

fun WithdrawView_step :: "username \<Rightarrow> decimal \<Rightarrow> stage \<times> db \<Rightarrow> stage \<times> db" where
  "WithdrawView_step u raw (Received, s) =
     (case WithdrawSerializer raw of
        Inl e \<Rightarrow> (Returned (Inl e), s)
      | Inr a \<Rightarrow>
         (case bank_account s u of
            Inl e \<Rightarrow> (Returned (Inl e), s)
          | Inr b \<Rightarrow> (Loaded a b, s)))"
| "WithdrawView_step u raw (Loaded a b, s) =
     (if b < a
      then (Returned (Inr (Response (Error ''Insuficient funds'') HTTP_400_BAD_REQUEST)), s)
      else (Saved a (b - a), save s u (b - a)))"
| "WithdrawView_step u raw (Saved a b', s) =
     (Returned (Inr (Response (Message ''Withdrawal successful'' b') HTTP_200_OK)),
      Transaction_objects_create s u ''WITHDRAWAL'' a ''Withdrawal from account'')"
| "WithdrawView_step u raw (Returned r, s) = (Returned r, s)"

text \<open>
  Calls in flight against one store. A schedule names, step by step, the call that
  runs its next statement.
\<close>

datatype view = DepositView | WithdrawView

record call =
  view_of :: view
  caller :: username
  data :: decimal
  stage_of :: stage

definition post :: "view \<Rightarrow> username \<Rightarrow> decimal \<Rightarrow> call" where
  "post v u raw = \<lparr>view_of = v, caller = u, data = raw, stage_of = Received\<rparr>"

definition call_step :: "call \<Rightarrow> db \<Rightarrow> call \<times> db" where
  "call_step c s =
     (let (st, s') =
            (case view_of c of
               DepositView \<Rightarrow> DepositView_step (caller c) (data c) (stage_of c, s)
             | WithdrawView \<Rightarrow> WithdrawView_step (caller c) (data c) (stage_of c, s))
      in (c\<lparr>stage_of := st\<rparr>, s'))"

fun interleave :: "nat list \<Rightarrow> call list \<times> db \<Rightarrow> call list \<times> db" where
  "interleave [] cfg = cfg"
| "interleave (i # js) (cs, s) =
     (if i < length cs
      then (let (c', s') = call_step (cs ! i) s in interleave js (cs[i := c'], s'))
      else interleave js (cs, s))"

subsection \<open>The transfer statement by statement\<close>

text \<open>
  \<^verbatim>\<open>TransferView.post\<close> reaches the store four times before it writes: the read of
  the sender's account (line 121), \<^verbatim>\<open>User.objects.get\<close> (line 130) and the read of the
  recipient's account (line 141) are statements of their own, run before
  \<^verbatim>\<open>transaction.atomic()\<close> is entered at line 143 and without a lock on either row.
  Only the two \<^verbatim>\<open>save()\<close> calls and the two \<^verbatim>\<open>create\<close> calls are inside the block;
  they are one step. A stage holds what the call's Python objects hold: the validated
  amount, the recipient's username, the sender's balance as read at line 121 and,
  once read, the recipient's balance as read at line 141.
\<close>

datatype transfer_stage =
    Transfer_received
  | Sender_loaded decimal string decimal
  | Recipient_found decimal string decimal
  | Recipient_loaded decimal string decimal decimal
  | Transfer_returned "exn + response"

fun TransferView_step ::
  "username \<Rightarrow> decimal \<Rightarrow> string \<Rightarrow> transfer_stage \<times> db \<Rightarrow> transfer_stage \<times> db" where
  "TransferView_step u raw raw_recipient (Transfer_received, s) =
     (case TransferSerializer raw raw_recipient of
        Inl e \<Rightarrow> (Transfer_returned (Inl e), s)
      | Inr (a, recipient_username) \<Rightarrow>
         (case bank_account s u of
            Inl e \<Rightarrow> (Transfer_returned (Inl e), s)
          | Inr sb \<Rightarrow> (Sender_loaded a recipient_username sb, s)))"
| "TransferView_step u raw raw_recipient (Sender_loaded a recipient_username sb, s) =
     (if u = recipient_username
      then (Transfer_returned (Inr (Response (Error ''Cannot transfer to yourself'')
                                     HTTP_400_BAD_REQUEST)), s)
      else
        (case User_objects_get s recipient_username of
           None \<Rightarrow> (Transfer_returned (Inr (Response (Error ''Recipient not found'')
                                             HTTP_404_NOT_FOUND)), s)
         | Some recipient \<Rightarrow> (Recipient_found a recipient sb, s)))"
| "TransferView_step u raw raw_recipient (Recipient_found a recipient sb, s) =
     (if sb < a
      then (Transfer_returned (Inr (Response (Error ''Insufficient funds'')
                                     HTTP_400_BAD_REQUEST)), s)
      else
        (case bank_account s recipient of
           Inl e \<Rightarrow> (Transfer_returned (Inl e), s)
         | Inr rb \<Rightarrow> (Recipient_loaded a recipient sb rb, s)))"
| "TransferView_step u raw raw_recipient (Recipient_loaded a recipient sb rb, s) =
     (let sb' = sb - a;
          s1 = save s u sb';
          rb' = rb + a;
          s2 = save s1 recipient rb';
          s3 = Transaction_objects_create s2 u ''TRANSFER_OUT'' a
                 (''Transfer to '' @ recipient);
          s4 = Transaction_objects_create s3 recipient ''TRANSFER_IN'' a
                 (''Transfer from '' @ u)
      in (Transfer_returned (Inr (Response (Message ''Transfer successful'' sb')
                                    HTTP_200_OK)), s4))"
| "TransferView_step u raw raw_recipient (Transfer_returned r, s) = (Transfer_returned r, s)"

text \<open>
  A transfer in flight beside deposits and withdrawals: a job is either of them, and
  a schedule names the job that runs its next statement.
\<close>

datatype job =
    Transfer_job username decimal string transfer_stage
  | Call_job call

fun job_step :: "job \<Rightarrow> db \<Rightarrow> job \<times> db" where
  "job_step (Transfer_job u raw r st) s =
     (let (st', s') = TransferView_step u raw r (st, s)
      in (Transfer_job u raw r st', s'))"
| "job_step (Call_job c) s =
     (let (c', s') = call_step c s in (Call_job c', s'))"

fun interleave_jobs :: "nat list \<Rightarrow> job list \<times> db \<Rightarrow> job list \<times> db" where
  "interleave_jobs [] cfg = cfg"
| "interleave_jobs (i # js) (cs, s) =
     (if i < length cs
      then (let (c', s') = job_step (cs ! i) s in interleave_jobs js (cs[i := c'], s'))
      else interleave_jobs js (cs, s))"

subsection \<open>Sample stores\<close>

text \<open>
  \<open>db0\<close>: alice holds 100.00, bob holds nothing yet, carol is a user without a bank
  account (a user that was not created through \<^verbatim>\<open>RegisterView\<close>). \<open>db1\<close> is \<open>db0\<close>
  after alice deposited 50.00 and transferred 100.00 to bob.
\<close>

definition db0 :: db where
  "db0 = \<lparr>users = [''alice'', ''bob'', ''carol''],
          bank_accounts = [''alice'' \<mapsto> 100, ''bob'' \<mapsto> 0],
          transactions = [], clock = 0\<rparr>"

definition db1 :: db where
  "db1 = \<lparr>users = [''alice'', ''bob'', ''carol''],
          bank_accounts = [''alice'' \<mapsto> 50, ''bob'' \<mapsto> 100],
          transactions =
            [\<lparr>account = ''alice'', transaction_type = ''DEPOSIT'', amount = 50,
              description = ''Deposit to account'', created_at = 0\<rparr>,
             \<lparr>account = ''alice'', transaction_type = ''TRANSFER_OUT'', amount = 100,
              description = ''Transfer to bob'', created_at = 1\<rparr>,
             \<lparr>account = ''bob'', transaction_type = ''TRANSFER_IN'', amount = 100,
              description = ''Transfer from alice'', created_at = 2\<rparr>],
          clock = 3\<rparr>"

section \<open>Properties\<close>

subsection \<open>Helper facts\<close>

lemma deposit_nonneg:
  "balances_nonneg s \<Longrightarrow> 0 < a \<Longrightarrow> balances_nonneg (snd (DepositView_post s u a))"
  by (auto simp add: balances_nonneg_def DepositView_post_def DepositSerializer_def
      bank_account_def save_def Transaction_objects_create_def Let_def
      split: option.splits)

lemma withdraw_nonneg:
  "balances_nonneg s \<Longrightarrow> 0 < a \<Longrightarrow> balances_nonneg (snd (WithdrawView_post s u a))"
  by (auto simp add: balances_nonneg_def WithdrawView_post_def WithdrawSerializer_def
      bank_account_def save_def Transaction_objects_create_def Let_def
      split: option.splits)

lemma transfer_nonneg:
  "balances_nonneg s \<Longrightarrow> 0 < a \<Longrightarrow> balances_nonneg (snd (TransferView_post s u a r))"
  by (auto simp add: balances_nonneg_def TransferView_post_def TransferSerializer_def
      bank_account_def save_def Transaction_objects_create_def Let_def User_objects_get_def
      split: option.splits)

lemma handle_nonneg:
  "balances_nonneg s \<Longrightarrow> 0 < request_amount q \<Longrightarrow> balances_nonneg (handle s q)"
  by (cases q) (simp_all add: deposit_nonneg withdraw_nonneg transfer_nonneg)

text \<open>The spec's scenario, run on \<open>db0\<close>: deposit 50.00, a refused withdrawal of 200.00,
  a transfer of 100.00 to bob.\<close>

lemma scenario_balances:
  "map (\<lambda>s. (bank_accounts s ''alice'', bank_accounts s ''bob''))
     (states_after db0 [Deposit ''alice'' 50, Withdraw ''alice'' 200,
        Transfer ''alice'' 100 ''bob''])
   = [(Some 150, Some 0), (Some 150, Some 0), (Some 50, Some 100)]"
  by (simp add: db0_def DepositView_post_def DepositSerializer_def WithdrawView_post_def
      WithdrawSerializer_def TransferView_post_def TransferSerializer_def bank_account_def
      save_def Transaction_objects_create_def User_objects_get_def Let_def)

lemma db1_reached:
  "states_after db0 [Deposit ''alice'' 50, Transfer ''alice'' 100 ''bob'']
   = [snd (DepositView_post db0 ''alice'' 50), db1]"
  by (simp add: db0_def db1_def DepositView_post_def DepositSerializer_def
      TransferView_post_def TransferSerializer_def bank_account_def
      save_def Transaction_objects_create_def User_objects_get_def Let_def fun_upd_twist)

text \<open>Run alone, the three statements of a call are the view.\<close>

lemma DepositView_steps_post:
  "DepositView_step u raw (DepositView_step u raw (DepositView_step u raw (Received, s)))
   = (Returned (fst (DepositView_post s u raw)), snd (DepositView_post s u raw))"
  by (simp add: DepositView_post_def Let_def split: sum.splits)

lemma WithdrawView_steps_post:
  "WithdrawView_step u raw (WithdrawView_step u raw (WithdrawView_step u raw (Received, s)))
   = (Returned (fst (WithdrawView_post s u raw)), snd (WithdrawView_post s u raw))"
  by (simp add: WithdrawView_post_def Let_def split: sum.splits)

text \<open>Run alone, the four statements of a transfer are the view.\<close>

lemma TransferView_steps_post:
  "TransferView_step u raw r (TransferView_step u raw r (TransferView_step u raw r
     (TransferView_step u raw r (Transfer_received, s))))
   = (Transfer_returned (fst (TransferView_post s u raw r)), snd (TransferView_post s u raw r))"
  by (simp add: TransferView_post_def TransferSerializer_def User_objects_get_def Let_def
      split: sum.splits)

text \<open>
  The block under \<^verbatim>\<open>transaction.atomic()\<close> is one step whatever the store holds when
  it runs: both balances are written from the call's own copies and the two records
  are appended together, TRANSFER_OUT then TRANSFER_IN, with the same amount.
\<close>

lemma TransferView_atomic_block:
  "\<exists>s' t1 t2. TransferView_step u raw raw_r (Recipient_loaded a r sb rb, s) =
       (Transfer_returned (Inr (Response (Message ''Transfer successful'' (sb - a))
                                  HTTP_200_OK)), s')
     \<and> bank_accounts s' = (bank_accounts s)(u \<mapsto> sb - a, r \<mapsto> rb + a)
     \<and> transactions s' = transactions s @ [t1, t2]
     \<and> account t1 = u \<and> transaction_type t1 = ''TRANSFER_OUT'' \<and> amount t1 = a
     \<and> account t2 = r \<and> transaction_type t2 = ''TRANSFER_IN'' \<and> amount t2 = a"
  by (simp add: save_def Transaction_objects_create_def Let_def)

subsection \<open>Balances\<close>

text \<open>
  C1. Starting from a store in which every balance is at least 0, serve any sequence
  of deposit, withdraw and transfer requests whose amounts are all positive, one
  after the other: in the store left by each request every balance is at least 0.
\<close>

theorem balances_stay_nonneg:
  assumes "balances_nonneg s" and "\<forall>q \<in> set qs. 0 < request_amount q"
  shows "\<forall>s' \<in> set (states_after s qs). balances_nonneg s'"
  using assms
proof (induction qs arbitrary: s)
  case Nil
  then show ?case by simp
next
  case (Cons q qs)
  from Cons.prems have step: "balances_nonneg (handle s q)"
    by (simp add: handle_nonneg)
  from Cons.prems have "\<forall>q \<in> set qs. 0 < request_amount q"
    by simp
  with step have "\<forall>s' \<in> set (states_after (handle s q) qs). balances_nonneg s'"
    by (rule Cons.IH)
  with step show ?case by simp
qed

theorem balances_stay_nonneg_witness:
  "balances_nonneg db0
   \<and> list_all (\<lambda>q. 0 < request_amount q)
        [Deposit ''alice'' 50, Withdraw ''alice'' 200, Transfer ''alice'' 100 ''bob'']
   \<and> list_all balances_nonneg
        (states_after db0
          [Deposit ''alice'' 50, Withdraw ''alice'' 200, Transfer ''alice'' 100 ''bob''])"
proof -
  have h1: "balances_nonneg db0"
    by (simp add: balances_nonneg_def db0_def)
  have h2: "\<forall>q \<in> set [Deposit ''alice'' 50, Withdraw ''alice'' 200,
      Transfer ''alice'' 100 ''bob'']. 0 < request_amount q"
    by simp
  from balances_stay_nonneg [OF h1 h2] h1 h2 show ?thesis
    unfolding list_all_iff by blast
qed

subsection \<open>Withdraw\<close>

text \<open>
  C2. A withdraw request with amount a > 0 on an account holding b: if b < a the view
  answers 400 with the insufficient-funds error and the store is the one it received
  (same balance, no record appended); otherwise the balance becomes b - a, exactly
  one record is appended, a WITHDRAWAL of amount a on that account, and the answer
  carries the new balance b - a.
\<close>

theorem withdraw_correct:
  assumes "0 < a" and "bank_accounts s u = Some b"
  shows "(b < a \<longrightarrow>
            WithdrawView_post s u a =
              (Inr (Response (Error ''Insuficient funds'') HTTP_400_BAD_REQUEST), s))
       \<and> (\<not> b < a \<longrightarrow>
            (\<exists>s' t. WithdrawView_post s u a =
                (Inr (Response (Message ''Withdrawal successful'' (b - a)) HTTP_200_OK), s')
              \<and> bank_accounts s' = (bank_accounts s)(u \<mapsto> b - a)
              \<and> transactions s' = transactions s @ [t]
              \<and> account t = u \<and> transaction_type t = ''WITHDRAWAL'' \<and> amount t = a
              \<and> users s' = users s))"
  using assms
  by (simp add: WithdrawView_post_def WithdrawSerializer_def bank_account_def save_def
      Transaction_objects_create_def Let_def)

theorem withdraw_correct_witness:
  "WithdrawView_post db0 ''alice'' 200 =
     (Inr (Response (Error ''Insuficient funds'') HTTP_400_BAD_REQUEST), db0)
   \<and> (\<exists>s' t. WithdrawView_post db0 ''alice'' 30 =
          (Inr (Response (Message ''Withdrawal successful'' 70) HTTP_200_OK), s')
        \<and> bank_accounts s' ''alice'' = Some 70
        \<and> transactions s' = [t]
        \<and> account t = ''alice'' \<and> transaction_type t = ''WITHDRAWAL'' \<and> amount t = 30)"
proof -
  have acc: "bank_accounts db0 ''alice'' = Some 100"
    by (simp add: db0_def)
  have "WithdrawView_post db0 ''alice'' 200 =
     (Inr (Response (Error ''Insuficient funds'') HTTP_400_BAD_REQUEST), db0)"
    using withdraw_correct [of 200 db0 "''alice''" 100] acc by simp
  moreover have "\<exists>s' t. WithdrawView_post db0 ''alice'' 30 =
          (Inr (Response (Message ''Withdrawal successful'' 70) HTTP_200_OK), s')
        \<and> bank_accounts s' ''alice'' = Some 70
        \<and> transactions s' = [t]
        \<and> account t = ''alice'' \<and> transaction_type t = ''WITHDRAWAL'' \<and> amount t = 30"
    using withdraw_correct [of 30 db0 "''alice''" 100] acc by (auto simp add: db0_def)
  ultimately show ?thesis by blast
qed

subsection \<open>Transfer\<close>

text \<open>
  Served alone, a transfer of amount a > 0 from a sender holding sb with a \<le> sb to a
  different, existing recipient whose account holds rb moves the money and records
  it: the sender's balance becomes sb - a and the recipient's rb + a, so their sum is
  unchanged; exactly two records are appended, a TRANSFER_OUT on the sender followed
  by a TRANSFER_IN on the recipient, both of amount a; the answer carries the
  sender's new balance.
\<close>

lemma transfer_served_alone:
  assumes "0 < a" and "bank_accounts s u = Some sb" and "a \<le> sb"
    and "r \<noteq> u" and "r \<in> set (users s)" and "bank_accounts s r = Some rb"
  shows "\<exists>s' sb' rb' t1 t2. TransferView_post s u a r =
            (Inr (Response (Message ''Transfer successful'' sb') HTTP_200_OK), s')
          \<and> bank_accounts s' = (bank_accounts s)(u \<mapsto> sb', r \<mapsto> rb')
          \<and> sb' = sb - a \<and> rb' = rb + a \<and> sb' + rb' = sb + rb
          \<and> transactions s' = transactions s @ [t1, t2]
          \<and> account t1 = u \<and> transaction_type t1 = ''TRANSFER_OUT'' \<and> amount t1 = a
          \<and> account t2 = r \<and> transaction_type t2 = ''TRANSFER_IN'' \<and> amount t2 = a
          \<and> users s' = users s"
  using assms
  by (simp add: TransferView_post_def TransferSerializer_def bank_account_def
      User_objects_get_def save_def Transaction_objects_create_def Let_def)

lemma transfer_served_alone_on_db0:
  "\<exists>s' t1 t2. TransferView_post db0 ''alice'' 100 ''bob'' =
            (Inr (Response (Message ''Transfer successful'' 0) HTTP_200_OK), s')
          \<and> bank_accounts s' ''alice'' = Some 0 \<and> bank_accounts s' ''bob'' = Some 100
          \<and> transactions s' = [t1, t2]
          \<and> account t1 = ''alice'' \<and> transaction_type t1 = ''TRANSFER_OUT'' \<and> amount t1 = 100
          \<and> account t2 = ''bob'' \<and> transaction_type t2 = ''TRANSFER_IN'' \<and> amount t2 = 100"
  using transfer_served_alone [of 100 db0 "''alice''" 100 "''bob''" 0]
  by (auto simp add: db0_def)

text \<open>
  C3. The claim asks that every successful transfer leaves the sum of the sender's
  and the recipient's balances unchanged, the recipient's balance raised by the
  amount, with the two records appended in the same atomic unit. In the source the
  unit under \<^verbatim>\<open>transaction.atomic()\<close> holds the four writes only: the balances it
  writes were read at lines 121 and 141, before the block and without a lock. Alice
  holds 100.00 and transfers 50.00 to bob, who holds 0.00 and deposits 30.00 at the
  same time. The transfer reads both balances, then the deposit runs its three
  statements and is answered with success (the store now holds 100.00 and 30.00),
  then the transfer's block runs: it saves 50.00 for alice and 0.00 + 50.00 for bob
  and is answered with success. The two balances summed 130.00 before the block and
  100.00 after it; bob's balance rose by 20.00, not by 50.00, and his recorded
  deposit is gone. Served one after the other, the two requests leave 50.00 and
  80.00.
\<close>

theorem transfer_reads_outside_atomic_race:
  "(let (js, s) = interleave_jobs [0, 0, 0, 1, 1, 1]
                    ([Transfer_job ''alice'' 50 ''bob'' Transfer_received,
                      Call_job (post DepositView ''bob'' 30)], db0)
    in js = [Transfer_job ''alice'' 50 ''bob'' (Recipient_loaded 50 ''bob'' 100 0),
             Call_job ((post DepositView ''bob'' 30)
               \<lparr>stage_of := Returned (Inr (Response (Message ''Deposit successful'' 30)
                                             HTTP_200_OK))\<rparr>)]
       \<and> bank_accounts s ''alice'' = Some 100 \<and> bank_accounts s ''bob'' = Some 30)
   \<and> (let (js, s) = interleave_jobs [0, 0, 0, 1, 1, 1, 0]
                    ([Transfer_job ''alice'' 50 ''bob'' Transfer_received,
                      Call_job (post DepositView ''bob'' 30)], db0)
      in js = [Transfer_job ''alice'' 50 ''bob''
                 (Transfer_returned (Inr (Response (Message ''Transfer successful'' 50)
                                            HTTP_200_OK))),
               Call_job ((post DepositView ''bob'' 30)
                 \<lparr>stage_of := Returned (Inr (Response (Message ''Deposit successful'' 30)
                                               HTTP_200_OK))\<rparr>)]
         \<and> bank_accounts s ''alice'' = Some 50 \<and> bank_accounts s ''bob'' = Some 50
         \<and> map (\<lambda>t. (account t, transaction_type t, amount t)) (transactions s) =
             [(''bob'', ''DEPOSIT'', 30), (''alice'', ''TRANSFER_OUT'', 50),
              (''bob'', ''TRANSFER_IN'', 50)])
   \<and> (let s = snd (TransferView_post (snd (DepositView_post db0 ''bob'' 30))
                     ''alice'' 50 ''bob'')
      in bank_accounts s ''alice'' = Some 50 \<and> bank_accounts s ''bob'' = Some 80)"
  by (simp add: post_def call_step_def db0_def DepositSerializer_def TransferSerializer_def
      DepositView_post_def TransferView_post_def
      bank_account_def save_def Transaction_objects_create_def User_objects_get_def Let_def)

subsection \<open>Deposit\<close>

text \<open>
  C4. A deposit of amount a > 0 by a caller whose account holds b always succeeds: the
  balance becomes b + a, exactly one record is appended, a DEPOSIT of amount a on
  that account, and the answer carries the new balance b + a.
\<close>

theorem deposit_correct:
  assumes "0 < a" and "bank_accounts s u = Some b"
  shows "\<exists>s' t. DepositView_post s u a =
            (Inr (Response (Message ''Deposit successful'' (b + a)) HTTP_200_OK), s')
          \<and> bank_accounts s' = (bank_accounts s)(u \<mapsto> b + a)
          \<and> transactions s' = transactions s @ [t]
          \<and> account t = u \<and> transaction_type t = ''DEPOSIT'' \<and> amount t = a
          \<and> users s' = users s"
  using assms
  by (simp add: DepositView_post_def DepositSerializer_def bank_account_def save_def
      Transaction_objects_create_def Let_def)

theorem deposit_correct_witness:
  "\<exists>s' t. DepositView_post db0 ''alice'' 50 =
            (Inr (Response (Message ''Deposit successful'' 150) HTTP_200_OK), s')
          \<and> bank_accounts s' ''alice'' = Some 150
          \<and> transactions s' = [t]
          \<and> account t = ''alice'' \<and> transaction_type t = ''DEPOSIT'' \<and> amount t = 50"
  using deposit_correct [of 50 db0 "''alice''" 100] by (auto simp add: db0_def)

subsection \<open>Order of the transfer's checks\<close>

text \<open>
  C5. For a transfer with a valid amount by a caller who has an account, the checks
  come in the order self-transfer, recipient exists, funds: a recipient equal to the
  sender gives the self-transfer error whatever the users table and the balance are;
  a recipient that is no user gives the recipient-not-found error whatever the
  balance is; an existing recipient with a balance below the amount gives the
  insufficient-funds error. In each case the store is the one the view received: no
  record is written and no balance changes.
\<close>

theorem transfer_precedence:
  assumes "0 < a" and "bank_accounts s u = Some b"
  shows "(r = u \<longrightarrow>
            TransferView_post s u a r =
              (Inr (Response (Error ''Cannot transfer to yourself'') HTTP_400_BAD_REQUEST), s))
       \<and> (r \<noteq> u \<and> r \<notin> set (users s) \<longrightarrow>
            TransferView_post s u a r =
              (Inr (Response (Error ''Recipient not found'') HTTP_404_NOT_FOUND), s))
       \<and> (r \<noteq> u \<and> r \<in> set (users s) \<and> b < a \<longrightarrow>
            TransferView_post s u a r =
              (Inr (Response (Error ''Insufficient funds'') HTTP_400_BAD_REQUEST), s))"
  using assms
  by (auto simp add: TransferView_post_def TransferSerializer_def bank_account_def
      User_objects_get_def)

theorem transfer_precedence_witness:
  "TransferView_post db0 ''alice'' 500 ''alice'' =
     (Inr (Response (Error ''Cannot transfer to yourself'') HTTP_400_BAD_REQUEST), db0)
   \<and> TransferView_post db0 ''alice'' 500 ''dave'' =
     (Inr (Response (Error ''Recipient not found'') HTTP_404_NOT_FOUND), db0)
   \<and> TransferView_post db0 ''alice'' 500 ''bob'' =
     (Inr (Response (Error ''Insufficient funds'') HTTP_400_BAD_REQUEST), db0)"
proof -
  have acc: "bank_accounts db0 ''alice'' = Some 100"
    by (simp add: db0_def)
  have us: "users db0 = [''alice'', ''bob'', ''carol'']"
    by (simp add: db0_def)
  from transfer_precedence [of 500 db0 "''alice''" 100 "''alice''"] acc
  have "TransferView_post db0 ''alice'' 500 ''alice'' =
     (Inr (Response (Error ''Cannot transfer to yourself'') HTTP_400_BAD_REQUEST), db0)"
    by simp
  moreover from transfer_precedence [of 500 db0 "''alice''" 100 "''dave''"] acc us
  have "TransferView_post db0 ''alice'' 500 ''dave'' =
     (Inr (Response (Error ''Recipient not found'') HTTP_404_NOT_FOUND), db0)"
    by simp
  moreover from transfer_precedence [of 500 db0 "''alice''" 100 "''bob''"] acc us
  have "TransferView_post db0 ''alice'' 500 ''bob'' =
     (Inr (Response (Error ''Insufficient funds'') HTTP_400_BAD_REQUEST), db0)"
    by simp
  ultimately show ?thesis by blast
qed

subsection \<open>History\<close>

text \<open>
  C6. For a caller with an account, the history view returns exactly the transaction
  records of that account (the same records, each as often as it is in the table),
  ordered by descending creation time, and hands the store back unchanged.
\<close>

theorem history_ordered:
  assumes "bank_accounts s u = Some b"
  shows "\<exists>ts. get_queryset s u = (Inr ts, s)
          \<and> mset ts = mset (filter (\<lambda>t. account t = u) (transactions s))
          \<and> sorted_wrt (\<lambda>t t'. created_at t' \<le> created_at t) ts"
proof -
  let ?rows = "filter (\<lambda>t. account t = u) (transactions s)"
  let ?ts = "rev (sort_key created_at ?rows)"
  have res: "get_queryset s u = (Inr ?ts, s)"
    using assms by (simp add: get_queryset_def bank_account_def)
  have same: "mset ?ts = mset ?rows"
    by simp
  have "sorted (map created_at (sort_key created_at ?rows))"
    by (rule sorted_sort_key)
  then have "sorted_wrt (\<lambda>t t'. created_at t \<le> created_at t') (sort_key created_at ?rows)"
    by (simp add: sorted_map)
  then have "sorted_wrt (\<lambda>t t'. created_at t' \<le> created_at t) ?ts"
    by (simp add: sorted_wrt_rev)
  with res same show ?thesis by blast
qed

theorem history_ordered_witness:
  "get_queryset db1 ''alice'' =
     (Inr [\<lparr>account = ''alice'', transaction_type = ''TRANSFER_OUT'', amount = 100,
             description = ''Transfer to bob'', created_at = 1\<rparr>,
           \<lparr>account = ''alice'', transaction_type = ''DEPOSIT'', amount = 50,
             description = ''Deposit to account'', created_at = 0\<rparr>], db1)
   \<and> (\<exists>ts. get_queryset db1 ''alice'' = (Inr ts, db1)
          \<and> mset ts = mset (filter (\<lambda>t. account t = ''alice'') (transactions db1))
          \<and> sorted_wrt (\<lambda>t t'. created_at t' \<le> created_at t) ts)"
proof -
  have acc: "bank_accounts db1 ''alice'' = Some 50"
    by (simp add: db1_def)
  have "get_queryset db1 ''alice'' =
     (Inr [\<lparr>account = ''alice'', transaction_type = ''TRANSFER_OUT'', amount = 100,
             description = ''Transfer to bob'', created_at = 1\<rparr>,
           \<lparr>account = ''alice'', transaction_type = ''DEPOSIT'', amount = 50,
             description = ''Deposit to account'', created_at = 0\<rparr>], db1)"
    by (simp add: db1_def get_queryset_def bank_account_def)
  with history_ordered [OF acc] show ?thesis by blast
qed

subsection \<open>Validation\<close>

text \<open>
  C7. A deposit, withdraw or transfer request whose amount is zero or negative is
  rejected with ValidationError, and the store is the one the view received: no
  balance is changed and no record is created.
\<close>

theorem nonpositive_amount_rejected:
  assumes "a \<le> 0"
  shows "DepositView_post s u a = (Inl ValidationError, s)
       \<and> WithdrawView_post s u a = (Inl ValidationError, s)
       \<and> TransferView_post s u a r = (Inl ValidationError, s)"
  using assms
  by (simp add: DepositView_post_def DepositSerializer_def WithdrawView_post_def
      WithdrawSerializer_def TransferView_post_def TransferSerializer_def)

theorem nonpositive_amount_rejected_witness:
  "DepositView_post db0 ''alice'' 0 = (Inl ValidationError, db0)
   \<and> WithdrawView_post db0 ''alice'' (- 5) = (Inl ValidationError, db0)
   \<and> TransferView_post db0 ''alice'' (- 5) ''bob'' = (Inl ValidationError, db0)"
  using nonpositive_amount_rejected [of 0 db0 "''alice''" "''bob''"]
    nonpositive_amount_rejected [of "- 5" db0 "''alice''" "''bob''"]
  by simp

subsection \<open>Concurrent callers\<close>

text \<open>
  C8. The claim asks that in a deposit and in a withdrawal the read and check of the
  balance, the write of the balance and the insert of the record form one atomic
  unit. In the source they are three separate store statements. Two withdrawals of
  80.00 by alice, who holds 100.00, scheduled statement by statement in turn: both
  read 100.00, both pass the funds test, both save 20.00 and both answer with
  success, so 160.00 is paid out of 100.00 and the balance reads 20.00. After the
  first call's \<^verbatim>\<open>save()\<close> and before its \<^verbatim>\<open>create\<close> the store holds the lowered balance
  with no record for it. Served one after the other, the second withdrawal is
  refused.
\<close>

theorem withdraw_check_then_save_race:
  "(let (cs, s) = interleave [0, 1, 0, 1, 0, 1]
                    ([post WithdrawView ''alice'' 80, post WithdrawView ''alice'' 80], db0)
    in map stage_of cs =
         [Returned (Inr (Response (Message ''Withdrawal successful'' 20) HTTP_200_OK)),
          Returned (Inr (Response (Message ''Withdrawal successful'' 20) HTTP_200_OK))]
       \<and> bank_accounts s ''alice'' = Some 20
       \<and> map (\<lambda>t. (account t, transaction_type t, amount t)) (transactions s) =
           [(''alice'', ''WITHDRAWAL'', 80), (''alice'', ''WITHDRAWAL'', 80)])
   \<and> (let (cs, s) = interleave [0, 1, 0]
                    ([post WithdrawView ''alice'' 80, post WithdrawView ''alice'' 80], db0)
      in map stage_of cs = [Saved 80 20, Loaded 80 100]
         \<and> bank_accounts s ''alice'' = Some 20 \<and> transactions s = [])
   \<and> fst (WithdrawView_post (snd (WithdrawView_post db0 ''alice'' 80)) ''alice'' 80) =
       Inr (Response (Error ''Insuficient funds'') HTTP_400_BAD_REQUEST)"
  by (simp add: post_def call_step_def db0_def WithdrawView_post_def WithdrawSerializer_def
      bank_account_def save_def Transaction_objects_create_def Let_def)

text \<open>The same schedule with two deposits of 50.00: both read 100.00 and both save
  150.00, so one deposit is lost although both are answered with success and both
  are recorded.\<close>

lemma deposit_lost_update:
  "(let (cs, s) = interleave [0, 1, 0, 1, 0, 1]
                    ([post DepositView ''alice'' 50, post DepositView ''alice'' 50], db0)
    in map stage_of cs =
         [Returned (Inr (Response (Message ''Deposit successful'' 150) HTTP_200_OK)),
          Returned (Inr (Response (Message ''Deposit successful'' 150) HTTP_200_OK))]
       \<and> bank_accounts s ''alice'' = Some 150
       \<and> map (\<lambda>t. (account t, transaction_type t, amount t)) (transactions s) =
           [(''alice'', ''DEPOSIT'', 50), (''alice'', ''DEPOSIT'', 50)])"
  by (simp add: post_def call_step_def db0_def DepositSerializer_def
      bank_account_def save_def Transaction_objects_create_def Let_def)

subsection \<open>A recipient without a bank account\<close>

text \<open>
  C9. When the recipient's username belongs to a user who has no bank account, and
  the self-transfer, existence and funds checks have passed, the view does not answer
  with the recipient-not-found error: the read of the recipient's account raises
  RelatedObjectDoesNotExist, which leaves the view unhandled. The store is unchanged.
\<close>

theorem transfer_recipient_without_account:
  assumes "0 < a" and "bank_accounts s u = Some b" and "a \<le> b"
    and "r \<noteq> u" and "r \<in> set (users s)" and "bank_accounts s r = None"
  shows "TransferView_post s u a r = (Inl RelatedObjectDoesNotExist, s)
       \<and> fst (TransferView_post s u a r) \<noteq>
           Inr (Response (Error ''Recipient not found'') HTTP_404_NOT_FOUND)"
  using assms
  by (auto simp add: TransferView_post_def TransferSerializer_def bank_account_def
      User_objects_get_def)

theorem transfer_recipient_without_account_witness:
  "TransferView_post db0 ''alice'' 10 ''carol'' = (Inl RelatedObjectDoesNotExist, db0)"
  using transfer_recipient_without_account [of 10 db0 "''alice''" 100 "''carol''"]
  by (simp add: db0_def)

subsection \<open>Scope of the history\<close>

text \<open>
  C10. Every record the history view returns to a caller has that caller's bank
  account as its account reference: no record of another account is in the result.
\<close>

theorem history_scoped:
  assumes "get_queryset s u = (Inr ts, s')"
  shows "\<forall>t \<in> set ts. account t = u"
  using assms
  by (auto simp add: get_queryset_def bank_account_def split: option.splits)

theorem history_scoped_witness:
  "get_queryset db1 ''bob'' =
     (Inr [\<lparr>account = ''bob'', transaction_type = ''TRANSFER_IN'', amount = 100,
             description = ''Transfer from alice'', created_at = 2\<rparr>], db1)
   \<and> list_all (\<lambda>t. account t = ''bob'')
        [\<lparr>account = ''bob'', transaction_type = ''TRANSFER_IN'', amount = 100,
          description = ''Transfer from alice'', created_at = 2\<rparr>]"
proof -
  have q: "get_queryset db1 ''bob'' =
     (Inr [\<lparr>account = ''bob'', transaction_type = ''TRANSFER_IN'', amount = 100,
             description = ''Transfer from alice'', created_at = 2\<rparr>], db1)"
    by (simp add: db1_def get_queryset_def bank_account_def)
  from history_scoped [OF q] q show ?thesis
    unfolding list_all_iff by blast
qed

end
